theory Spec2Isabelle
  imports Complex_Main "HOL-Library.AList"
begin

section \<open>Values, errors and pandas-like containers\<close>

text \<open>
  The node stores cue and node records as pandas Series whose cells are strings,
  integers or Python's None. The sentinel of the getters is the string 'None', which
  is a \<open>VStr\<close>, not \<open>VNone\<close>.
\<close>

datatype val = VNone | VStr string | VInt int

text \<open>The exceptions of the source that a lookup can raise.\<close>

datatype py_error = KeyError | AttributeError

text \<open>
  A Series is an ordered list of (label, cell) pairs. \<open>series[label]\<close> raises KeyError
  on a missing label; \<open>series[label] = v\<close> overwrites the cell in place or appends
  a new label; \<open>series.empty\<close> holds when there is no cell.
\<close>

type_synonym series = "(string \<times> val) list"

definition series_getitem :: "series \<Rightarrow> string \<Rightarrow> py_error + val" where
  "series_getitem sr index = (case map_of sr index of None \<Rightarrow> Inl KeyError | Some v \<Rightarrow> Inr v)"

definition series_setitem :: "series \<Rightarrow> string \<Rightarrow> val \<Rightarrow> series" where
  "series_setitem sr index v = AList.update index v sr"

definition series_empty :: "series \<Rightarrow> bool" where
  "series_empty sr = (sr = [])"

text \<open>
  A DataFrame is a list of labelled rows, each a Series (the state frame is indexed by
  cue state, the attribute frame by MAC address, the cue frame by cue prefix).
  \<open>frame.loc[row]\<close> and \<open>frame.at[row, column]\<close> raise KeyError when the row or the
  column is missing.
\<close>

type_synonym 'i frame = "('i \<times> series) list"

definition frame_loc :: "'i frame \<Rightarrow> 'i \<Rightarrow> py_error + series" where
  "frame_loc fr row = (case map_of fr row of None \<Rightarrow> Inl KeyError | Some r \<Rightarrow> Inr r)"

definition frame_at :: "'i frame \<Rightarrow> 'i \<Rightarrow> string \<Rightarrow> py_error + val" where
  "frame_at fr row col =
     (case map_of fr row of None \<Rightarrow> Inl KeyError | Some r \<Rightarrow> series_getitem r col)"

text \<open>Sequencing of steps that may raise: the first exception ends the computation.\<close>

definition try_bind :: "py_error + 'a \<Rightarrow> ('a \<Rightarrow> py_error + 'b) \<Rightarrow> py_error + 'b" where
  "try_bind r f = (case r of Inl e \<Rightarrow> Inl e | Inr v \<Rightarrow> f v)"

text \<open>
  What the tasks do besides changing the node: sleeps (in time units) and the calls that
  reach the LED hardware.
\<close>

datatype action = Sleep rat | ButtonLED bool | SetHex string | ResetRGB


section \<open>ErrorStorage (Dependencies/errors)\<close>

text \<open>
  \<open>errors\<close> is the list held in memory, \<open>dumped\<close> the list last written to the JSON
  file (None until the first dump of this process).
\<close>

record ErrorStorage =
  filename :: string
  errors :: "string list"
  dumped :: "string list option"

definition error_dump :: "ErrorStorage \<Rightarrow> ErrorStorage" where
  "error_dump st = st\<lparr>dumped := Some (errors st)\<rparr>"

text \<open>\<open>update\<close>, with the traceback that \<open>format_exc()\<close> returns as an argument.\<close>

definition update :: "string \<Rightarrow> ErrorStorage \<Rightarrow> ErrorStorage" where
  "update trace st =
     error_dump (if trace \<notin> set (errors st) then st\<lparr>errors := errors st @ [trace]\<rparr> else st)"


section \<open>LCDDisplay (Dependencies/LCD)\<close>

text \<open>
  The driver classes are hardware wrappers; the model logs the calls made on the
  driver object in \<open>display\<close>. The driver is only ever called under \<open>isSetup\<close>.
\<close>

datatype lcd_call = Begin nat nat | Home | Message string | Clear

record LCDDisplay =
  message :: string
  currentPriority :: int
  isSetup :: bool
  display :: "lcd_call list"

text \<open>
  The for/else of \<open>__display_setup\<close>: the first address whose adapter constructor does
  not raise OSError breaks the loop; the else branch runs when no address did (also
  when the address list is empty). The address list and the answer of the bus are
  parameters: \<open>responds a\<close> says that \<open>PCF8574_GPIO(a)\<close> does not raise.
\<close>

fun find_adapter :: "(nat \<Rightarrow> bool) \<Rightarrow> nat list \<Rightarrow> nat option" where
  "find_adapter responds [] = None"
| "find_adapter responds (address # rest) =
     (if responds address then Some address else find_adapter responds rest)"

definition display_setup :: "(nat \<Rightarrow> bool) \<Rightarrow> nat list \<Rightarrow> LCDDisplay \<Rightarrow> LCDDisplay" where
  "display_setup responds ADDRESSES l =
     (case find_adapter responds ADDRESSES of
        None \<Rightarrow> l\<lparr>isSetup := False\<rparr>
      | Some adapter \<Rightarrow> l\<lparr>isSetup := True, display := display l @ [Begin 16 2]\<rparr>)"

definition LCDDisplay_init :: "(nat \<Rightarrow> bool) \<Rightarrow> nat list \<Rightarrow> LCDDisplay" where
  "LCDDisplay_init responds ADDRESSES =
     display_setup responds ADDRESSES
       \<lparr>message = [], currentPriority = 0, isSetup = True, display = []\<rparr>"

definition change_priority :: "int \<Rightarrow> LCDDisplay \<Rightarrow> LCDDisplay" where
  "change_priority priority l = l\<lparr>currentPriority := priority\<rparr>"

definition display_text :: "string \<Rightarrow> int \<Rightarrow> LCDDisplay \<Rightarrow> LCDDisplay" where
  "display_text text priority l =
     (if isSetup l \<and> priority \<ge> currentPriority l then
        (let m = take 32 text in
         change_priority priority
           (l\<lparr>message := m,
              display := display l @
                [Home, Message (take 16 m @ [CHR 0x0A]), Message (take (32 - 16) (drop 16 m))]\<rparr>))
      else l)"

text \<open>The calls a client can make on the display, for sequences of calls.\<close>

datatype lcd_op = DisplayText string int | ChangePriority int

fun lcd_apply :: "lcd_op \<Rightarrow> LCDDisplay \<Rightarrow> LCDDisplay" where
  "lcd_apply (DisplayText text priority) l = display_text text priority l"
| "lcd_apply (ChangePriority priority) l = change_priority priority l"

definition lcd_run :: "lcd_op list \<Rightarrow> LCDDisplay \<Rightarrow> LCDDisplay" where
  "lcd_run ops l = fold lcd_apply ops l"

text \<open>A call that lowers the latch to 1 or below.\<close>

fun lowers :: "lcd_op \<Rightarrow> bool" where
  "lowers (ChangePriority priority) = (priority \<le> 1)"
| "lowers (DisplayText text priority) = False"

text \<open>An I2C bus on which exactly the adapters at the addresses \<open>present\<close> answer.\<close>

definition bus_with :: "nat list \<Rightarrow> nat \<Rightarrow> bool" where
  "bus_with present address = (address \<in> set present)"

text \<open>\<open>clear\<close> uses the driver object, which exists only after a successful setup.\<close>

definition clear :: "LCDDisplay \<Rightarrow> py_error + LCDDisplay" where
  "clear l = (if isSetup l then Inr (l\<lparr>display := display l @ [Clear]\<rparr>) else Inl AttributeError)"


section \<open>GPIOManagement (Dependencies/GPIO)\<close>

text \<open>
  The screen task and the button task are references to one of the private coroutines;
  the runner calls them with the stored argument.
\<close>

datatype screen_task = T_default_screen | T_solid_screen | T_blink_screen

datatype button_task = T_button_state | T_blink_button

record GPIOManagement =
  delay :: rat
  isConnected :: bool
  screenTask :: screen_task
  screenArg :: string
  buttonTask :: button_task
  buttonArg :: bool
  isPressed :: bool

definition default_screen :: "GPIOManagement \<Rightarrow> GPIOManagement" where
  "default_screen g = g\<lparr>screenTask := T_default_screen\<rparr>"

definition solid_screen :: "string \<Rightarrow> GPIOManagement \<Rightarrow> GPIOManagement" where
  "solid_screen hexString g = g\<lparr>screenTask := T_solid_screen, screenArg := hexString\<rparr>"

definition blink_screen :: "string \<Rightarrow> GPIOManagement \<Rightarrow> GPIOManagement" where
  "blink_screen hexString g = g\<lparr>screenTask := T_blink_screen, screenArg := hexString\<rparr>"

definition standby :: "GPIOManagement \<Rightarrow> GPIOManagement" where
  "standby g = solid_screen ''FFFF00'' g"

definition multiple_standbys :: "GPIOManagement \<Rightarrow> GPIOManagement" where
  "multiple_standbys g = blink_screen ''FFFF00'' g"

definition go :: "GPIOManagement \<Rightarrow> GPIOManagement" where
  "go g = solid_screen ''00FF00'' g"

definition button_state :: "bool \<Rightarrow> GPIOManagement \<Rightarrow> GPIOManagement" where
  "button_state state g = g\<lparr>buttonTask := T_button_state, buttonArg := state\<rparr>"

definition blink_button :: "GPIOManagement \<Rightarrow> GPIOManagement" where
  "blink_button g = g\<lparr>buttonTask := T_blink_button\<rparr>"

definition connected :: "bool \<Rightarrow> GPIOManagement \<Rightarrow> GPIOManagement" where
  "connected state g = g\<lparr>isConnected := state\<rparr>"

definition pressed :: "GPIOManagement \<Rightarrow> bool" where
  "pressed g = isPressed g"

definition reset_button_pressed :: "GPIOManagement \<Rightarrow> GPIOManagement" where
  "reset_button_pressed g = g\<lparr>isPressed := False\<rparr>"

text \<open>The hardware callback of the button's rising edge (\<open>ButtonManager.pressed\<close>).\<close>

definition button_edge :: "GPIOManagement \<Rightarrow> GPIOManagement" where
  "button_edge g = g\<lparr>isPressed := True\<rparr>"

definition GPIOManagement_init :: "string \<Rightarrow> rat \<Rightarrow> GPIOManagement" where
  "GPIOManagement_init defaultColor d =
     (button_state False (default_screen
        \<lparr>delay = d, isConnected = False, screenTask = T_default_screen, screenArg = [],
         buttonTask = T_button_state, buttonArg = False, isPressed = False\<rparr>))
       \<lparr>screenArg := defaultColor, buttonArg := False\<rparr>"

text \<open>The private coroutines, as the hardware calls and sleeps they make.\<close>

definition priv_default_screen :: "action list" where
  "priv_default_screen = [ResetRGB]"

definition priv_solid_screen :: "string \<Rightarrow> action list" where
  "priv_solid_screen hexString = [SetHex hexString]"

definition priv_blink_screen :: "GPIOManagement \<Rightarrow> string \<Rightarrow> action list" where
  "priv_blink_screen g hexString =
     priv_solid_screen hexString @ [Sleep (delay g)] @ priv_default_screen"

definition priv_button_state :: "bool \<Rightarrow> action list" where
  "priv_button_state state = [ButtonLED state]"

definition priv_blink_button :: "GPIOManagement \<Rightarrow> action list" where
  "priv_blink_button g = priv_button_state True @ [Sleep (delay g)] @ priv_button_state False"

definition priv_not_connected :: "GPIOManagement \<Rightarrow> action list" where
  "priv_not_connected g = priv_blink_screen g ''FF0000''"

text \<open>
  \<open>run_LED_tasks\<close> gathers one button coroutine and one screen coroutine; the result
  is the pair of what each does.
\<close>

definition run_LED_tasks :: "GPIOManagement \<Rightarrow> action list \<times> action list" where
  "run_LED_tasks g =
     (if isConnected g then
        ((case buttonTask g of
            T_button_state \<Rightarrow> priv_button_state (buttonArg g)
          | T_blink_button \<Rightarrow> priv_blink_button g),
         (case screenTask g of
            T_default_screen \<Rightarrow> priv_default_screen
          | T_solid_screen \<Rightarrow> priv_solid_screen (screenArg g)
          | T_blink_screen \<Rightarrow> priv_blink_screen g (screenArg g)))
      else (priv_button_state False, priv_not_connected g))"


section \<open>Node (main.py)\<close>

text \<open>
  The data attributes of the node. An attribute that \<open>__init__\<close> does not assign is an
  option: reading it before its first assignment raises AttributeError. The futures that
  \<open>create_future()\<close> has made are cells of the store \<open>futures\<close> (True when the future
  is done) and \<open>uptodate_future\<close> refers to one of them. \<open>sent\<close> logs the calls of
  \<open>send_message\<close>.
\<close>

record Node =
  mac :: string
  nodeSeries :: series
  cueSeries :: series
  changeState :: bool
  initialState :: bool
  justPressed :: bool
  attributes_dict :: "(string \<rightharpoonup> val) option"
  stateFrame :: "val frame option"
  oldServerTime :: val
  futures :: "bool list"
  uptodate_future :: nat
  errorStorage :: ErrorStorage
  LCD :: LCDDisplay
  GPIO :: GPIOManagement
  sent :: "(series \<times> nat) list"

datatype datatype_key = Online | Attributes | Cue_to_Node | Current | Node_key

fun datatype_dict :: "datatype_key \<Rightarrow> nat" where
  "datatype_dict Online = 65"
| "datatype_dict Attributes = 68"
| "datatype_dict Cue_to_Node = 69"
| "datatype_dict Current = 70"
| "datatype_dict Node_key = 71"

definition Node_init ::
  "string \<Rightarrow> string \<Rightarrow> string list \<Rightarrow> (nat \<Rightarrow> bool) \<Rightarrow> nat list \<Rightarrow> Node" where
  "Node_init errorStorageFile macAddress loaded responds ADDRESSES =
     \<lparr>mac = macAddress, nodeSeries = [], cueSeries = [],
      changeState = False, initialState = True, justPressed = False,
      attributes_dict = None, stateFrame = None, oldServerTime = VNone,
      futures = [], uptodate_future = 0,
      errorStorage = \<lparr>filename = errorStorageFile, errors = loaded, dumped = None\<rparr>,
      LCD = LCDDisplay_init responds ADDRESSES,
      GPIO = GPIOManagement_init ''0000FF'' 1,
      sent = []\<rparr>"

subsection \<open>Getters\<close>

definition get_node_series_value :: "Node \<Rightarrow> string \<Rightarrow> py_error + val" where
  "get_node_series_value s index =
     (case series_getitem (nodeSeries s) index of
        Inl KeyError \<Rightarrow> Inr (VStr ''None'')
      | Inl e \<Rightarrow> Inl e
      | Inr v \<Rightarrow> Inr v)"

definition dict_getitem :: "('k \<rightharpoonup> 'v) \<Rightarrow> 'k \<Rightarrow> py_error + 'v" where
  "dict_getitem d key = (case d key of None \<Rightarrow> Inl KeyError | Some v \<Rightarrow> Inr v)"

definition get_attribute_value :: "Node \<Rightarrow> string \<Rightarrow> py_error + val" where
  "get_attribute_value s key =
     (case (case attributes_dict s of
              None \<Rightarrow> Inl AttributeError
            | Some d \<Rightarrow> dict_getitem d key) of
        Inl KeyError \<Rightarrow> Inr (VStr ''None'')
      | Inl e \<Rightarrow> Inl e
      | Inr v \<Rightarrow> Inr v)"

subsection \<open>The readiness gate: \<open>__uptodate_check\<close>\<close>

definition create_future :: "Node \<Rightarrow> Node" where
  "create_future s = s\<lparr>futures := futures s @ [False], uptodate_future := length (futures s)\<rparr>"

definition future_done :: "Node \<Rightarrow> bool" where
  "future_done s = futures s ! uptodate_future s"

definition set_result :: "Node \<Rightarrow> Node" where
  "set_result s = s\<lparr>futures := (futures s)[uptodate_future s := True]\<rparr>"

text \<open>The reference of the node points into the store.\<close>

definition wf_future :: "Node \<Rightarrow> bool" where
  "wf_future s = (uptodate_future s < length (futures s))"

text \<open>The first statement of \<open>run_tasks\<close>: the future of the not-connected state.\<close>

definition run_tasks_begin :: "Node \<Rightarrow> Node" where
  "run_tasks_begin s = create_future s"

text \<open>
  One pass of the loop of \<open>__uptodate_check\<close> with the clock it read, up to and
  including its sleep.
\<close>

definition uptodate_check_poll :: "val \<Rightarrow> Node \<Rightarrow> action \<times> Node" where
  "uptodate_check_poll newServerTime s =
     (if newServerTime \<noteq> VNone \<and> newServerTime \<noteq> oldServerTime s then
        (Sleep 5,
         (if \<not> future_done s then set_result s else s)\<lparr>oldServerTime := newServerTime\<rparr>)
      else
        (Sleep (1 / 4), if future_done s then create_future s else s))"

fun uptodate_check_loop :: "val list \<Rightarrow> Node \<Rightarrow> Node" where
  "uptodate_check_loop [] s = s"
| "uptodate_check_loop (newServerTime # reads) s =
     uptodate_check_loop reads (snd (uptodate_check_poll newServerTime s))"

text \<open>
  \<open>__uptodate_check\<close> on the clocks it reads: the first read initialises the stored
  clock, every later read is one pass of the loop.
\<close>

definition uptodate_check :: "val \<Rightarrow> val list \<Rightarrow> Node \<Rightarrow> Node" where
  "uptodate_check firstServerTime reads s =
     uptodate_check_loop reads (s\<lparr>oldServerTime := firstServerTime\<rparr>)"

subsection \<open>The synchronizers: \<open>__update_attributes\<close> and \<open>__update_state_frame\<close>\<close>

text \<open>
  Each loop is run on the list of answers that \<open>receive_data\<close> gives to its successive
  fetches (None when the server has nothing). The result is the sleeps made, the node,
  and the returned string, or None when the answers ran out with the loop still
  retrying.
\<close>

fun update_attributes ::
  "string frame option list \<Rightarrow> Node \<Rightarrow> action list \<times> Node \<times> string option" where
  "update_attributes [] s = ([], s, None)"
| "update_attributes (all_attributes # later) s =
     (case (case all_attributes of
              None \<Rightarrow> Inl AttributeError
            | Some fr \<Rightarrow> frame_loc fr (mac s)) of
        Inl e \<Rightarrow>
          (case update_attributes later s of
             (acts, s', r) \<Rightarrow> (Sleep 5 # acts, s', r))
      | Inr attributes_series \<Rightarrow>
          ([], s\<lparr>attributes_dict := Some (map_of attributes_series)\<rparr>,
           Some ''Attributes Updated''))"

fun update_state_frame ::
  "val frame option list \<Rightarrow> Node \<Rightarrow> action list \<times> Node \<times> string option" where
  "update_state_frame [] s = ([], s, None)"
| "update_state_frame (serverFrame # later) s =
     (case serverFrame of
        Some fr \<Rightarrow> ([], s\<lparr>stateFrame := Some fr\<rparr>, Some ''State Dataframe Updated'')
      | None \<Rightarrow>
          (case update_state_frame later s of
             (acts, s', r) \<Rightarrow> (Sleep (5 / 2) # acts, s', r)))"

subsection \<open>The cue tracker: \<open>__get_cue_series\<close>\<close>

definition get_cue_series_cycle :: "val frame option \<Rightarrow> Node \<Rightarrow> action list \<times> Node" where
  "get_cue_series_cycle all_cue_nums s =
     (case (case all_cue_nums of
              None \<Rightarrow> Inl AttributeError
            | Some fr \<Rightarrow>
                try_bind (get_attribute_value s ''Cue Prefix'') (\<lambda>prefix. frame_loc fr prefix)) of
        Inl e \<Rightarrow> ([Sleep 1, Sleep 1], s)
      | Inr row \<Rightarrow> ([Sleep 1], s\<lparr>cueSeries := row\<rparr>))"


subsection \<open>The node state machine: \<open>__update_node_series\<close>\<close>

text \<open>Which branch of the cycle ran; \<open>updated\<close> is the flag the branch sets.\<close>

datatype outcome = NoUpdate | NewCue | FinalPhase

fun updated :: "outcome \<Rightarrow> bool" where
  "updated NoUpdate = False"
| "updated NewCue = True"
| "updated FinalPhase = True"

definition read_stateFrame :: "Node \<Rightarrow> py_error + val frame" where
  "read_stateFrame s = (case stateFrame s of None \<Rightarrow> Inl AttributeError | Some fr \<Rightarrow> Inr fr)"

text \<open>
  The list comprehension of the second condition: both attributes are compared before
  \<open>any\<close> looks at the list.
\<close>

definition cue_differs :: "Node \<Rightarrow> py_error + bool" where
  "cue_differs s =
     try_bind (series_getitem (cueSeries s) ''Cue Number'') (\<lambda>c1.
     try_bind (get_node_series_value s ''Cue Number'') (\<lambda>n1.
     try_bind (series_getitem (cueSeries s) ''Cue State'') (\<lambda>c2.
     try_bind (get_node_series_value s ''Cue State'') (\<lambda>n2.
     Inr (c1 \<noteq> n1 \<or> c2 \<noteq> n2)))))"

definition new_cue :: "Node \<Rightarrow> py_error + outcome \<times> Node" where
  "new_cue s =
     (let copied = cueSeries s in
      try_bind (read_stateFrame s) (\<lambda>fr.
      try_bind (series_getitem copied ''Cue State'') (\<lambda>cueState.
      try_bind (frame_at fr cueState ''Initial Node State'') (\<lambda>nodeState.
      try_bind (get_attribute_value s ''Node Number'') (\<lambda>nodeNumber.
      Inr (NewCue,
           s\<lparr>nodeSeries :=
                series_setitem (series_setitem copied ''Node State'' nodeState)
                  ''Node Number'' nodeNumber,
              changeState := False, initialState := True,
              GPIO := reset_button_pressed (GPIO s)\<rparr>))))))"

definition final_phase :: "Node \<Rightarrow> py_error + outcome \<times> Node" where
  "final_phase s =
     try_bind (read_stateFrame s) (\<lambda>fr.
     try_bind (series_getitem (nodeSeries s) ''Cue State'') (\<lambda>cueState.
     try_bind (frame_at fr cueState ''Final Node State'') (\<lambda>nodeState.
     Inr (FinalPhase,
          s\<lparr>nodeSeries := series_setitem (nodeSeries s) ''Node State'' nodeState,
            initialState := False\<rparr>))))"

text \<open>
  The if/elif chain of one cycle, entered once the future is done. The \<open>or\<close> of the
  second condition does not compare the records when the node record is empty.
\<close>

definition update_node_series_cycle :: "Node \<Rightarrow> py_error + outcome \<times> Node" where
  "update_node_series_cycle s =
     (if series_empty (cueSeries s) then Inr (NoUpdate, s)
      else
        try_bind (if series_empty (nodeSeries s) then Inr True else cue_differs s) (\<lambda>isNew.
          if isNew then new_cue s
          else if changeState s \<and> initialState s then final_phase s
          else Inr (NoUpdate, s)))"

text \<open>
  What the cycle does when \<open>updated\<close> is set, after its sleep of one time unit: the
  stored clock becomes the timestamp and the record is sent to the server.
\<close>

definition publish :: "Node \<Rightarrow> Node" where
  "publish s =
     (let stamped = series_setitem (nodeSeries s) ''Timestamp'' (oldServerTime s) in
      s\<lparr>nodeSeries := stamped, sent := sent s @ [(stamped, datatype_dict Node_key)]\<rparr>)"

subsection \<open>The button monitor: \<open>__get_button_input\<close>\<close>

definition get_button_input_poll :: "Node \<Rightarrow> Node" where
  "get_button_input_poll s =
     (if \<not> changeState s then
        (let s1 = s\<lparr>changeState := pressed (GPIO s)\<rparr> in
         if changeState s1 then s1\<lparr>justPressed := True\<rparr> else s1)
      else s)"

text \<open>The end of the four time units that follow a press.\<close>

definition get_button_input_release :: "Node \<Rightarrow> Node" where
  "get_button_input_release s = s\<lparr>justPressed := False\<rparr>"

subsection \<open>The LED arbiter: \<open>__update_LEDs\<close>\<close>

definition update_LEDs_cycle :: "Node \<Rightarrow> py_error + Node" where
  "update_LEDs_cycle s =
     (let g = connected (future_done s) (GPIO s) in
      if future_done s then
        try_bind (get_node_series_value s ''Cue State'') (\<lambda>cueState.
        try_bind (get_node_series_value s ''Node State'') (\<lambda>nodeState.
          if nodeState \<noteq> VStr ''None'' then
            Inr (s\<lparr>GPIO := default_screen
                   (if cueState = VStr ''Go'' \<and> justPressed s then button_state True g
                    else button_state False g)\<rparr>)
          else if cueState = VStr ''Go'' then
            Inr (s\<lparr>GPIO := blink_button (go g)\<rparr>)
          else
            (let g1 = button_state False g in
             if cueState = VStr ''Standby'' then Inr (s\<lparr>GPIO := standby g1\<rparr>)
             else if cueState = VStr ''Multiple Standbys'' then
               Inr (s\<lparr>GPIO := multiple_standbys g1\<rparr>)
             else Inr (s\<lparr>GPIO := g1\<rparr>))))
      else Inr (s\<lparr>GPIO := g\<rparr>))"

subsection \<open>The display presenter: \<open>__update_display\<close>\<close>

text \<open>\<open>str\<close> of a cell, as an f-string formats it.\<close>

fun nat_digits :: "nat \<Rightarrow> string" where
  "nat_digits n =
     (if n < 10 then [char_of (48 + n)]
      else nat_digits (n div 10) @ [char_of (48 + n mod 10)])"

declare nat_digits.simps [simp del]

fun py_str :: "val \<Rightarrow> string" where
  "py_str VNone = ''None''"
| "py_str (VStr x) = x"
| "py_str (VInt i) = (if i < 0 then ''-'' @ nat_digits (nat (- i)) else nat_digits (nat i))"

text \<open>
  One cycle, given whether the setup tasks are done and the local flag \<open>first\<close>; it
  returns the sleeps made and the new value of \<open>first\<close>. The message goes to
  \<open>display_text\<close> with no priority argument, that is with the default priority 1.
\<close>

definition update_display_cycle ::
  "bool \<Rightarrow> bool \<Rightarrow> Node \<Rightarrow> py_error + action list \<times> bool \<times> Node" where
  "update_display_cycle setup_tasks_done first s =
     (if setup_tasks_done then
        (if first then
           try_bind (get_attribute_value s ''Node Number'') (\<lambda>nodeNum.
           try_bind (get_attribute_value s ''Node Name'') (\<lambda>nodeName.
           try_bind (get_attribute_value s ''Cue Prefix'') (\<lambda>cuePrefix.
             Inr ([Sleep 8, Sleep 2], False,
                  s\<lparr>LCD := display_text
                     (''Setup: '' @ py_str nodeNum @ '', '' @ py_str nodeName @ '', '' @
                      py_str cuePrefix @ replicate 32 CHR '' '') 1 (LCD s)\<rparr>))))
         else
           try_bind (get_node_series_value s ''Cue Number'') (\<lambda>cueNum.
           try_bind (get_node_series_value s ''Action'') (\<lambda>action.
             Inr ([Sleep 2], first,
                  s\<lparr>LCD := display_text
                     (''Cue '' @ py_str cueNum @ '': '' @ py_str action @
                      replicate 32 CHR '' '') 1 (LCD s)\<rparr>))))
      else
        Inr ([Sleep 2], first,
             s\<lparr>LCD := display_text (''MAC Addr: '' @ mac s) 1 (LCD s)\<rparr>))"

subsection \<open>The handler of \<open>run_tasks\<close>\<close>

text \<open>
  What the except branch does with the traceback of the failure, before it sleeps and
  cleans up the hardware.
\<close>

definition run_tasks_except :: "string \<Rightarrow> Node \<Rightarrow> Node" where
  "run_tasks_except trace s =
     s\<lparr>errorStorage := update trace (errorStorage s),
       LCD := display_text ''An error has occurred: check log'' 2 (LCD s)\<rparr>"

subsection \<open>Executions of the tasks after setup\<close>

text \<open>
  The tasks run under one cooperative scheduler: each runs from one suspension point to
  the next without interruption. An execution is the list of these atomic steps, in the
  order the scheduler ran them: a pass of the readiness gate with the clock it read, a
  pass of the cue tracker with the frame it fetched, the hardware's rising edge of the
  button, a poll of the button monitor and the end of its pulse, a pass of the LED
  arbiter, and a step of the node state machine. The state machine's step is the
  publication when an update is pending, and a cycle otherwise; a cycle needs the
  future done (the task is suspended on it until then).
\<close>

datatype event =
  ClockPoll val | CueFetch "val frame option" | ButtonEdge | ButtonPoll | ButtonRelease
  | LEDUpdate | NodeStep

fun step :: "event \<Rightarrow> bool \<Rightarrow> Node \<Rightarrow> py_error + outcome option \<times> bool \<times> Node" where
  "step (ClockPoll newServerTime) pending s =
     Inr (None, pending, snd (uptodate_check_poll newServerTime s))"
| "step (CueFetch all_cue_nums) pending s =
     Inr (None, pending,
          if future_done s then snd (get_cue_series_cycle all_cue_nums s) else s)"
| "step ButtonEdge pending s = Inr (None, pending, s\<lparr>GPIO := button_edge (GPIO s)\<rparr>)"
| "step ButtonPoll pending s = Inr (None, pending, get_button_input_poll s)"
| "step ButtonRelease pending s = Inr (None, pending, get_button_input_release s)"
| "step LEDUpdate pending s =
     try_bind (update_LEDs_cycle s) (\<lambda>s'. Inr (None, pending, s'))"
| "step NodeStep pending s =
     (if pending then Inr (None, False, publish s)
      else if \<not> future_done s then Inr (None, False, s)
      else try_bind (update_node_series_cycle s) (\<lambda>(oc, s'). Inr (Some oc, updated oc, s')))"




text \<open>The node and the pending flag at the end of an execution.\<close>

fun exec :: "event list \<Rightarrow> bool \<Rightarrow> Node \<Rightarrow> py_error + bool \<times> Node" where
  "exec [] pending s = Inr (pending, s)"
| "exec (ev # evs) pending s =
     (case step ev pending s of
        Inl e \<Rightarrow> Inl e
      | Inr (oc, pending', s') \<Rightarrow> exec evs pending' s')"

text \<open>What the LED runner does when it runs at the end of an execution.\<close>

definition LED_tasks_after ::
  "event list \<Rightarrow> Node \<Rightarrow> (action list \<times> action list) option" where
  "LED_tasks_after evs s =
     (case exec evs False s of
        Inl e \<Rightarrow> None
      | Inr (pending, s') \<Rightarrow> Some (run_LED_tasks (GPIO s')))"


section \<open>Example data\<close>

text \<open>
  A node whose display adapter answers at address 39, before \<open>run_tasks\<close>; a transition
  table, an attribute frame and cue records (the last one with a cue state that the
  table does not have).
\<close>

definition example_node :: Node where
  "example_node = Node_init ''errors.json'' ''b8:27:eb:12:34:56'' [] (bus_with [39]) [39, 63]"

definition example_frame :: "val frame" where
  "example_frame =
     [(VStr ''Standby'',
         [(''Initial Node State'', VStr ''None''), (''Final Node State'', VStr ''Ready'')]),
      (VStr ''Go'',
         [(''Initial Node State'', VStr ''None''), (''Final Node State'', VStr ''Done'')]),
      (VStr ''Hold'',
         [(''Initial Node State'', VStr ''None''), (''Final Node State'', VStr ''Held'')])]"

definition example_attributes :: "string frame" where
  "example_attributes =
     [(''b8:27:eb:12:34:56'',
         [(''Node Number'', VInt 3), (''Node Name'', VStr ''Stage Left''),
          (''Cue Prefix'', VStr ''A'')])]"

definition example_cue :: series where
  "example_cue =
     [(''Cue Number'', VInt 12), (''Cue State'', VStr ''Standby''), (''Action'', VStr ''Hold'')]"

definition example_cue_hold :: series where
  "example_cue_hold =
     [(''Cue Number'', VInt 14), (''Cue State'', VStr ''Hold''), (''Action'', VStr ''Freeze'')]"



text \<open>
  The example node after both setup tasks have succeeded and the readiness gate has
  seen the clock change from 100 to 101.
\<close>

definition example_ready :: Node where
  "example_ready =
     uptodate_check (VInt 100) [VInt 101]
       (fst (snd (update_state_frame [Some example_frame]
          (fst (snd (update_attributes [Some example_attributes]
             (run_tasks_begin example_node)))))))"

text \<open>
  The example node later on: the Standby cue was taken up and published, the button was
  pressed and the final phase published, the button was pressed once more, and the cue
  tracker has just stored the Hold cue.
\<close>

definition example_pressed :: Node where
  "example_pressed =
     example_ready
       \<lparr>nodeSeries :=
          [(''Cue Number'', VInt 12), (''Cue State'', VStr ''Standby''),
           (''Action'', VStr ''Hold''), (''Node State'', VStr ''Ready''),
           (''Node Number'', VInt 3), (''Timestamp'', VInt 101)],
        cueSeries := example_cue_hold,
        changeState := True, initialState := False, justPressed := True,
        GPIO := button_edge (GPIO example_ready),
        sent :=
          [([(''Cue Number'', VInt 12), (''Cue State'', VStr ''Standby''),
             (''Action'', VStr ''Hold''), (''Node State'', VStr ''None''),
             (''Node Number'', VInt 3), (''Timestamp'', VInt 101)], 71),
           ([(''Cue Number'', VInt 12), (''Cue State'', VStr ''Standby''),
             (''Action'', VStr ''Hold''), (''Node State'', VStr ''Ready''),
             (''Node Number'', VInt 3), (''Timestamp'', VInt 101)], 71)]\<rparr>"


section \<open>Properties of ErrorStorage\<close>

lemma update_twice: "update trace (update trace st) = update trace st"
  by (simp add: update_def error_dump_def)

lemma update_present: "trace \<in> set (errors st) \<Longrightarrow> errors (update trace st) = errors st"
  by (simp add: update_def error_dump_def)

lemma update_absent:
  "trace \<notin> set (errors st) \<Longrightarrow> errors (update trace st) = errors st @ [trace]"
  by (simp add: update_def error_dump_def)

text \<open>
  Claim C9. Updating twice with the same traceback leaves the error storage as one
  update does: a traceback that is in the list is not appended (the list is unchanged),
  one that is not in the list is appended once, and the second update adds no further
  copy.
\<close>

theorem update_idempotent:
  "update trace (update trace st) = update trace st \<and>
   (trace \<in> set (errors st) \<longrightarrow> errors (update trace st) = errors st) \<and>
   (trace \<notin> set (errors st) \<longrightarrow> errors (update trace st) = errors st @ [trace]) \<and>
   count_list (errors (update trace (update trace st))) trace =
     count_list (errors (update trace st)) trace"
  using update_twice update_present update_absent by simp

theorem update_idempotent_witness:
  "''Traceback: KeyError'' \<in> set (errors
     \<lparr>filename = ''errors.json'', errors = [''Traceback: KeyError''], dumped = None\<rparr>) \<and>
   errors (update ''Traceback: KeyError''
     \<lparr>filename = ''errors.json'', errors = [''Traceback: KeyError''], dumped = None\<rparr>)
     = [''Traceback: KeyError''] \<and>
   ''Traceback: OSError'' \<notin> set (errors
     \<lparr>filename = ''errors.json'', errors = [''Traceback: KeyError''], dumped = None\<rparr>) \<and>
   errors (update ''Traceback: OSError'' (update ''Traceback: OSError''
     \<lparr>filename = ''errors.json'', errors = [''Traceback: KeyError''], dumped = None\<rparr>))
     = [''Traceback: KeyError'', ''Traceback: OSError'']"
  using update_idempotent [of "''Traceback: KeyError''"
      "\<lparr>filename = ''errors.json'', errors = [''Traceback: KeyError''], dumped = None\<rparr>"]
    update_idempotent [of "''Traceback: OSError''"
      "\<lparr>filename = ''errors.json'', errors = [''Traceback: KeyError''], dumped = None\<rparr>"]
  by simp


section \<open>Properties of LCDDisplay\<close>

lemma display_text_shown_iff:
  "display (display_text text priority l) \<noteq> display l \<longleftrightarrow>
     isSetup l \<and> currentPriority l \<le> priority"
  by (simp add: display_text_def change_priority_def Let_def)

lemma display_text_accept:
  "isSetup l \<Longrightarrow> currentPriority l \<le> priority \<Longrightarrow>
   display_text text priority l =
     l\<lparr>message := take 32 text,
       display := display l @ [Home, Message (take 16 (take 32 text) @ [CHR 0x0A]),
                               Message (take 16 (drop 16 (take 32 text)))],
       currentPriority := priority\<rparr>"
  by (simp add: display_text_def change_priority_def Let_def)

lemma display_text_reject:
  "\<not> (isSetup l \<and> currentPriority l \<le> priority) \<Longrightarrow> display_text text priority l = l"
  by (auto simp add: display_text_def)

lemma lcd_apply_latch:
  "\<not> lowers op \<Longrightarrow> 2 \<le> currentPriority l \<Longrightarrow> 2 \<le> currentPriority (lcd_apply op l)"
  by (cases op) (auto simp add: display_text_def change_priority_def Let_def)

lemma lcd_run_latch:
  "\<forall>op \<in> set ops. \<not> lowers op \<Longrightarrow> 2 \<le> currentPriority l \<Longrightarrow>
   2 \<le> currentPriority (lcd_run ops l)"
  unfolding lcd_run_def
  by (induction ops arbitrary: l) (simp_all add: lcd_apply_latch)

lemma lcd_apply_isSetup: "isSetup (lcd_apply op l) = isSetup l"
  by (cases op) (auto simp add: display_text_def change_priority_def Let_def)

lemma lcd_run_isSetup: "isSetup (lcd_run ops l) = isSetup l"
  unfolding lcd_run_def
  by (induction ops arbitrary: l) (simp_all add: lcd_apply_isSetup)

lemma find_adapter_None:
  "find_adapter responds ADDRESSES = None \<longleftrightarrow> (\<forall>a \<in> set ADDRESSES. \<not> responds a)"
  by (induction ADDRESSES) auto

lemma init_failed:
  "\<forall>a \<in> set ADDRESSES. \<not> responds a \<Longrightarrow> \<not> isSetup (LCDDisplay_init responds ADDRESSES)"
  using find_adapter_None [of responds ADDRESSES]
  by (simp add: LCDDisplay_init_def display_setup_def)

lemma example_lcd:
  "LCDDisplay_init (bus_with [39]) [39, 63] =
     \<lparr>message = [], currentPriority = 0, isSetup = True, display = [Begin 16 2]\<rparr>"
  by (simp add: LCDDisplay_init_def display_setup_def bus_with_def)

lemma latched_low_call_noop:
  assumes "isSetup l" "currentPriority l \<le> 2" "\<forall>op \<in> set ops. \<not> lowers op"
  shows "lcd_run (DisplayText text2 2 # ops @ [DisplayText text1 1]) l =
         lcd_run (DisplayText text2 2 # ops) l"
proof -
  let ?l2 = "display_text text2 2 l"
  have l2: "currentPriority ?l2 = 2"
    using assms(1,2) by (simp add: display_text_accept)
  have "2 \<le> currentPriority (lcd_run ops ?l2)"
    using assms(3) l2 by (simp add: lcd_run_latch)
  then have "display_text text1 1 (lcd_run ops ?l2) = lcd_run ops ?l2"
    by (simp add: display_text_reject)
  then show ?thesis
    by (simp add: lcd_run_def)
qed

lemma reset_reopens:
  "isSetup l \<Longrightarrow> p \<le> 1 \<Longrightarrow>
   display (display_text text1 1 (change_priority p l)) \<noteq> display (change_priority p l)"
  using display_text_shown_iff [of text1 1 "change_priority p l"]
  by (simp add: change_priority_def)

text \<open>
  Claim C5. A call of \<open>display_text\<close> reaches the driver exactly when the display was
  set up and the priority is at least the latched one; it then stores the first 32
  characters, writes the two rows and latches the priority; otherwise it changes nothing.
  Hence, once a priority-2 message is shown, a priority-1 call made after any calls
  that do not lower the latch (no \<open>change_priority\<close> with a value of 1 or less) leaves
  the whole display state, message and latch included, as it was; and after
  \<open>change_priority\<close> with a value of 1 or less a priority-1 call is shown again.
\<close>

theorem display_text_priority_latch:
  "(display (display_text text priority l) \<noteq> display l \<longleftrightarrow>
      isSetup l \<and> currentPriority l \<le> priority) \<and>
   (isSetup l \<and> currentPriority l \<le> priority \<longrightarrow>
      display_text text priority l =
        l\<lparr>message := take 32 text,
          display := display l @ [Home, Message (take 16 (take 32 text) @ [CHR 0x0A]),
                                  Message (take 16 (drop 16 (take 32 text)))],
          currentPriority := priority\<rparr>) \<and>
   (\<not> (isSetup l \<and> currentPriority l \<le> priority) \<longrightarrow> display_text text priority l = l) \<and>
   (isSetup l \<and> currentPriority l \<le> 2 \<and> (\<forall>op \<in> set ops. \<not> lowers op) \<longrightarrow>
      lcd_run (DisplayText text2 2 # ops @ [DisplayText text1 1]) l =
      lcd_run (DisplayText text2 2 # ops) l) \<and>
   (isSetup l \<and> p \<le> 1 \<longrightarrow>
      display (display_text text1 1 (change_priority p l)) \<noteq> display (change_priority p l))"
  using display_text_shown_iff [of "text" priority l]
    display_text_accept [of l priority "text"]
    display_text_reject [of l priority "text"]
    latched_low_call_noop [of l ops text2 text1]
    reset_reopens [of l p text1]
  by blast

theorem display_text_priority_latch_witness:
  "isSetup (LCDDisplay_init (bus_with [39]) [39, 63]) \<and>
   currentPriority (LCDDisplay_init (bus_with [39]) [39, 63]) \<le> 2 \<and>
   \<not> lowers (DisplayText ''Cue 12: Hold'' 1) \<and>
   message (lcd_run [DisplayText ''An error has occurred: check log'' 2,
                     DisplayText ''Cue 12: Hold'' 1, DisplayText ''Cue 13: Go'' 1]
              (LCDDisplay_init (bus_with [39]) [39, 63])) = ''An error has occurred: check log'' \<and>
   currentPriority (lcd_run [DisplayText ''An error has occurred: check log'' 2,
                     DisplayText ''Cue 12: Hold'' 1, DisplayText ''Cue 13: Go'' 1]
              (LCDDisplay_init (bus_with [39]) [39, 63])) = 2 \<and>
   message (display_text ''Cue 13: Go'' 1 (change_priority 0
      (display_text ''An error has occurred: check log'' 2
         (LCDDisplay_init (bus_with [39]) [39, 63])))) = ''Cue 13: Go''"
  using display_text_priority_latch [of "''An error has occurred: check log''" 2
      "LCDDisplay_init (bus_with [39]) [39, 63]" "[DisplayText ''Cue 12: Hold'' 1]"
      "''An error has occurred: check log''" "''Cue 13: Go''" 0]
  by (simp add: example_lcd lcd_run_def display_text_def change_priority_def)

text \<open>
  Claim C10. When no address of the list answered during the setup, the display is not
  set up, and every later \<open>display_text\<close> call (after any other calls, and whatever its
  priority) returns the display state unchanged, the stored message and the latched
  priority included; the call of the handler of \<open>run_tasks\<close> is one of them. The call
  skips its whole body, so there is nothing in it that could raise.
\<close>

theorem display_text_dropped_without_setup:
  assumes "\<forall>address \<in> set ADDRESSES. \<not> responds address"
  shows "\<not> isSetup (LCDDisplay_init responds ADDRESSES) \<and>
         display_text text priority (lcd_run ops (LCDDisplay_init responds ADDRESSES)) =
           lcd_run ops (LCDDisplay_init responds ADDRESSES) \<and>
         message (display_text text priority
                    (lcd_run ops (LCDDisplay_init responds ADDRESSES))) =
           message (lcd_run ops (LCDDisplay_init responds ADDRESSES)) \<and>
         currentPriority (display_text text priority
                    (lcd_run ops (LCDDisplay_init responds ADDRESSES))) =
           currentPriority (lcd_run ops (LCDDisplay_init responds ADDRESSES)) \<and>
         (LCD s = LCDDisplay_init responds ADDRESSES \<longrightarrow>
            LCD (run_tasks_except trace s) = LCD s)"
proof -
  have f: "\<not> isSetup (LCDDisplay_init responds ADDRESSES)"
    using assms by (rule init_failed)
  then have "\<not> isSetup (lcd_run ops (LCDDisplay_init responds ADDRESSES))"
    by (simp add: lcd_run_isSetup)
  then have d: "display_text text priority (lcd_run ops (LCDDisplay_init responds ADDRESSES)) =
           lcd_run ops (LCDDisplay_init responds ADDRESSES)"
    by (simp add: display_text_reject)
  have "LCD s = LCDDisplay_init responds ADDRESSES \<longrightarrow> LCD (run_tasks_except trace s) = LCD s"
    using f by (simp add: run_tasks_except_def display_text_reject)
  with f d show ?thesis by simp
qed

theorem display_text_dropped_without_setup_witness:
  "\<not> bus_with [] 39 \<and> \<not> bus_with [] 63 \<and>
   message (display_text ''An error has occurred: check log'' 2
      (LCDDisplay_init (bus_with []) [39, 63])) = [] \<and>
   currentPriority (display_text ''An error has occurred: check log'' 2
      (LCDDisplay_init (bus_with []) [39, 63])) = 0"
  using display_text_dropped_without_setup [of "[39, 63]" "bus_with []"
      "''An error has occurred: check log''" 2 "[]"]
  by (simp add: bus_with_def lcd_run_def LCDDisplay_init_def display_setup_def)


section \<open>Properties of the readiness gate\<close>

lemma wf_create: "wf_future (create_future s)"
  by (simp add: wf_future_def create_future_def)

lemma wf_poll: "wf_future s \<Longrightarrow> wf_future (snd (uptodate_check_poll r s))"
  by (simp add: wf_future_def uptodate_check_poll_def create_future_def set_result_def)

lemma wf_loop: "wf_future s \<Longrightarrow> wf_future (uptodate_check_loop reads s)"
  by (induction reads arbitrary: s) (simp_all add: wf_poll)

lemma wf_check: "wf_future (uptodate_check first reads (run_tasks_begin s))"
  unfolding uptodate_check_def run_tasks_begin_def
  by (rule wf_loop) (simp add: wf_future_def create_future_def)

lemma loop_snoc:
  "uptodate_check_loop (reads @ [r]) s = snd (uptodate_check_poll r (uptodate_check_loop reads s))"
  by (induction reads arbitrary: s) simp_all

lemma check_snoc:
  "uptodate_check first (reads @ [r]) s =
     snd (uptodate_check_poll r (uptodate_check first reads s))"
  by (simp add: uptodate_check_def loop_snoc)

lemma poll_done_iff:
  "wf_future s \<Longrightarrow>
   future_done (snd (uptodate_check_poll r s)) \<longleftrightarrow> (r \<noteq> VNone \<and> r \<noteq> oldServerTime s)"
  by (simp add: wf_future_def uptodate_check_poll_def create_future_def set_result_def
      future_done_def)

lemma poll_stale:
  "wf_future s \<Longrightarrow> future_done s \<Longrightarrow> \<not> (r \<noteq> VNone \<and> r \<noteq> oldServerTime s) \<Longrightarrow>
   snd (uptodate_check_poll r s) =
     s\<lparr>futures := futures s @ [False], uptodate_future := length (futures s)\<rparr>"
  by (auto simp add: uptodate_check_poll_def create_future_def)

lemma start_not_done: "\<not> future_done (uptodate_check first [] (run_tasks_begin s))"
  by (simp add: uptodate_check_def run_tasks_begin_def create_future_def future_done_def)

text \<open>
  Claim C1. From the start of \<open>run_tasks\<close>, for every sequence of clock reads: the
  future is not done before the first pass of the loop; after each pass it is done
  exactly when that pass read a clock that is present and differs from the clock stored
  before it; and a pass that observes no change (None included) while the future is done
  replaces it by a new future, which is not done, is a new cell of the store (not the one
  the earlier waiters were released from, which stays as it was) and is the one that
  later waiters find; the stored clock is unchanged.
\<close>

theorem readiness_gate_step:
  "\<not> future_done (uptodate_check first [] (run_tasks_begin s)) \<and>
   (future_done (uptodate_check first (reads @ [r]) (run_tasks_begin s)) \<longleftrightarrow>
      r \<noteq> VNone \<and> r \<noteq> oldServerTime (uptodate_check first reads (run_tasks_begin s))) \<and>
   (future_done (uptodate_check first reads (run_tasks_begin s)) \<and>
    \<not> (r \<noteq> VNone \<and> r \<noteq> oldServerTime (uptodate_check first reads (run_tasks_begin s))) \<longrightarrow>
      \<not> future_done (uptodate_check first (reads @ [r]) (run_tasks_begin s)) \<and>
      uptodate_future (uptodate_check first (reads @ [r]) (run_tasks_begin s)) =
        length (futures (uptodate_check first reads (run_tasks_begin s))) \<and>
      uptodate_future (uptodate_check first (reads @ [r]) (run_tasks_begin s)) \<noteq>
        uptodate_future (uptodate_check first reads (run_tasks_begin s)) \<and>
      futures (uptodate_check first (reads @ [r]) (run_tasks_begin s)) =
        futures (uptodate_check first reads (run_tasks_begin s)) @ [False] \<and>
      oldServerTime (uptodate_check first (reads @ [r]) (run_tasks_begin s)) =
        oldServerTime (uptodate_check first reads (run_tasks_begin s)))"
proof -
  let ?pre = "uptodate_check first reads (run_tasks_begin s)"
  let ?post = "uptodate_check first (reads @ [r]) (run_tasks_begin s)"
  have wf: "wf_future ?pre" by (rule wf_check)
  have post: "?post = snd (uptodate_check_poll r ?pre)" by (rule check_snoc)
  have a: "\<not> future_done (uptodate_check first [] (run_tasks_begin s))"
    by (rule start_not_done)
  have b: "future_done ?post \<longleftrightarrow> r \<noteq> VNone \<and> r \<noteq> oldServerTime ?pre"
    using wf post by (simp add: poll_done_iff)
  have c: "\<not> future_done ?post \<and> uptodate_future ?post = length (futures ?pre) \<and>
      uptodate_future ?post \<noteq> uptodate_future ?pre \<and>
      futures ?post = futures ?pre @ [False] \<and> oldServerTime ?post = oldServerTime ?pre"
    if h: "future_done ?pre" "\<not> (r \<noteq> VNone \<and> r \<noteq> oldServerTime ?pre)"
  proof -
    have e: "?post = ?pre\<lparr>futures := futures ?pre @ [False],
               uptodate_future := length (futures ?pre)\<rparr>"
      using wf h post poll_stale [of ?pre r] by simp
    have "\<not> future_done ?post" using b h(2) by blast
    moreover have "uptodate_future ?post = length (futures ?pre)"
      by (subst e) simp
    moreover have "uptodate_future ?post \<noteq> uptodate_future ?pre"
      using wf calculation(2) by (simp add: wf_future_def)
    moreover have "futures ?post = futures ?pre @ [False]"
      by (subst e) simp
    moreover have "oldServerTime ?post = oldServerTime ?pre"
      by (subst e) simp
    ultimately show ?thesis by blast
  qed
  from a b c show ?thesis by blast
qed

lemma example_begin:
  "futures (run_tasks_begin example_node) = [False] \<and>
   uptodate_future (run_tasks_begin example_node) = 0"
  by (simp add: run_tasks_begin_def create_future_def example_node_def Node_init_def)

theorem readiness_gate_step_witness:
  "\<not> future_done (uptodate_check (VInt 100) [VInt 100] (run_tasks_begin example_node)) \<and>
   future_done (uptodate_check (VInt 100) [VInt 100, VInt 101] (run_tasks_begin example_node)) \<and>
   \<not> (VInt 101 \<noteq> VNone \<and> VInt 101 \<noteq>
        oldServerTime (uptodate_check (VInt 100) [VInt 100, VInt 101]
                         (run_tasks_begin example_node))) \<and>
   \<not> future_done (uptodate_check (VInt 100) [VInt 100, VInt 101, VInt 101]
                    (run_tasks_begin example_node)) \<and>
   uptodate_future (uptodate_check (VInt 100) [VInt 100, VInt 101, VInt 101]
                    (run_tasks_begin example_node)) = 1 \<and>
   futures (uptodate_check (VInt 100) [VInt 100, VInt 101, VInt 101]
                    (run_tasks_begin example_node)) = [True, False]"
  using readiness_gate_step [of "VInt 100" example_node "[VInt 100, VInt 101]" "VInt 101"]
  by (simp add: uptodate_check_def uptodate_check_poll_def future_done_def set_result_def
      create_future_def example_begin)


section \<open>Properties of the synchronizers\<close>

lemma update_attributes_fails:
  "\<forall>a \<in> set fails. (case a of None \<Rightarrow> True | Some fr \<Rightarrow> map_of fr (mac s) = None) \<Longrightarrow>
   update_attributes (fails @ later) s =
     (case update_attributes later s of
        (acts, s', r) \<Rightarrow> (replicate (length fails) (Sleep 5) @ acts, s', r))"
proof (induction fails)
  case Nil
  then show ?case by simp
next
  case (Cons a fails)
  then show ?case
    by (cases a) (simp_all add: frame_loc_def split: prod.splits)
qed

lemma update_state_frame_fails:
  "update_state_frame (replicate n None @ later) s =
     (case update_state_frame later s of
        (acts, s', r) \<Rightarrow> (replicate n (Sleep (5 / 2)) @ acts, s', r))"
  by (induction n) (simp_all split: prod.splits)

text \<open>
  Claim C7, amended. A fetch fails for the attribute synchronizer when the server has
  nothing or the frame has no row for this node's MAC address, and for the
  transition-table synchronizer when the server has nothing. The attribute synchronizer
  sleeps 5 time units after every failed fetch; the transition-table synchronizer sleeps
  2.5 time units after every failed fetch. For both, the first successful fetch stores
  the value and the loop returns, whatever the server would answer later; as long as
  every fetch has failed the loop has not returned and the node is unchanged.
\<close>

theorem synchronizer_backoff:
  "((\<forall>a \<in> set fails. (case a of None \<Rightarrow> True | Some fr \<Rightarrow> map_of fr (mac s) = None)) \<and>
    map_of fr (mac s) = Some row \<longrightarrow>
      update_attributes (fails @ Some fr # later) s =
        (replicate (length fails) (Sleep 5), s\<lparr>attributes_dict := Some (map_of row)\<rparr>,
         Some ''Attributes Updated'') \<and>
      update_attributes fails s = (replicate (length fails) (Sleep 5), s, None)) \<and>
   update_state_frame (replicate n None @ Some sf # later') s =
     (replicate n (Sleep (5 / 2)), s\<lparr>stateFrame := Some sf\<rparr>, Some ''State Dataframe Updated'') \<and>
   update_state_frame (replicate n None) s = (replicate n (Sleep (5 / 2)), s, None)"
proof -
  have a: "update_attributes (fails @ Some fr # later) s =
        (replicate (length fails) (Sleep 5), s\<lparr>attributes_dict := Some (map_of row)\<rparr>,
         Some ''Attributes Updated'')"
    if "\<forall>a \<in> set fails. (case a of None \<Rightarrow> True | Some fr \<Rightarrow> map_of fr (mac s) = None)"
      "map_of fr (mac s) = Some row"
    using that update_attributes_fails [of fails s "Some fr # later"]
    by (simp add: frame_loc_def)
  have b: "update_attributes fails s = (replicate (length fails) (Sleep 5), s, None)"
    if "\<forall>a \<in> set fails. (case a of None \<Rightarrow> True | Some fr \<Rightarrow> map_of fr (mac s) = None)"
    using that update_attributes_fails [of fails s "[]"] by simp
  have c: "update_state_frame (replicate n None @ Some sf # later') s =
     (replicate n (Sleep (5 / 2)), s\<lparr>stateFrame := Some sf\<rparr>, Some ''State Dataframe Updated'')"
    by (simp add: update_state_frame_fails)
  have d: "update_state_frame (replicate n None) s = (replicate n (Sleep (5 / 2)), s, None)"
    using update_state_frame_fails [of n "[]" s] by simp
  from a b c d show ?thesis by blast
qed

lemma example_mac: "mac example_node = ''b8:27:eb:12:34:56''"
  by (simp add: example_node_def Node_init_def)

theorem synchronizer_backoff_witness:
  "map_of ([] :: string frame) (mac example_node) = None \<and>
   map_of example_attributes (mac example_node) =
     Some [(''Node Number'', VInt 3), (''Node Name'', VStr ''Stage Left''),
           (''Cue Prefix'', VStr ''A'')] \<and>
   fst (update_attributes [None, Some [], Some example_attributes, None] example_node) =
     [Sleep 5, Sleep 5] \<and>
   snd (snd (update_attributes [None, Some [], Some example_attributes, None] example_node)) =
     Some ''Attributes Updated'' \<and>
   fst (update_state_frame [None, None, Some example_frame, None] example_node) =
     [Sleep (5 / 2), Sleep (5 / 2)]"
  using synchronizer_backoff [of "[None, Some []]" example_node example_attributes
      "[(''Node Number'', VInt 3), (''Node Name'', VStr ''Stage Left''),
           (''Cue Prefix'', VStr ''A'')]" "[None]" 2 example_frame "[None]"]
  by (simp add: example_mac example_attributes_def numeral_2_eq_2)

text \<open>
  The claim as stated is false: after a failed fetch the transition-table synchronizer
  sleeps 2.5 time units, not 5.
\<close>

theorem state_frame_backoff_counterexample:
  "fst (update_state_frame [None, Some example_frame] example_node) = [Sleep (5 / 2)] \<and>
   fst (update_state_frame [None, Some example_frame] example_node) \<noteq> [Sleep 5] \<and>
   snd (snd (update_state_frame [None, Some example_frame] example_node)) =
     Some ''State Dataframe Updated''"
  by simp

section \<open>Properties of the getters\<close>

lemma get_node_series_value_eq:
  "get_node_series_value s index =
     Inr (case map_of (nodeSeries s) index of None \<Rightarrow> VStr ''None'' | Some v \<Rightarrow> v)"
  by (simp add: get_node_series_value_def series_getitem_def split: option.splits)

lemma get_attribute_value_Some:
  "attributes_dict s = Some d \<Longrightarrow>
   get_attribute_value s key = Inr (case d key of None \<Rightarrow> VStr ''None'' | Some v \<Rightarrow> v)"
  by (simp add: get_attribute_value_def dict_getitem_def split: option.splits)

lemma get_attribute_value_None:
  "attributes_dict s = None \<Longrightarrow> get_attribute_value s key = Inl AttributeError"
  by (simp add: get_attribute_value_def)

text \<open>
  Claim C8, amended. A read of a node-series value never raises: it returns the string
  'None' for every label when the record is empty, and in general the cell of the label
  or 'None' when the label is absent. A read of an attribute value returns the
  dictionary's value, or 'None' for an absent key, once the attribute synchronizer has
  stored the dictionary; while the dictionary has never been assigned, the read raises
  AttributeError (the tasks that read attributes wait for the setup tasks first).
\<close>

theorem sentinel_reads:
  "(nodeSeries s = [] \<longrightarrow> get_node_series_value s index = Inr (VStr ''None'')) \<and>
   get_node_series_value s index =
     Inr (case map_of (nodeSeries s) index of None \<Rightarrow> VStr ''None'' | Some v \<Rightarrow> v) \<and>
   (attributes_dict s = Some d \<longrightarrow>
      get_attribute_value s key = Inr (case d key of None \<Rightarrow> VStr ''None'' | Some v \<Rightarrow> v)) \<and>
   (attributes_dict s = None \<longrightarrow> get_attribute_value s key = Inl AttributeError)"
  using get_node_series_value_eq [of s index] get_attribute_value_Some [of s d key]
    get_attribute_value_None [of s key]
  by simp

theorem sentinel_reads_witness:
  "nodeSeries example_node = [] \<and>
   get_node_series_value example_node ''Cue Number'' = Inr (VStr ''None'') \<and>
   attributes_dict (fst (snd (update_attributes [Some example_attributes] example_node))) =
     Some (map_of [(''Node Number'', VInt 3), (''Node Name'', VStr ''Stage Left''),
           (''Cue Prefix'', VStr ''A'')]) \<and>
   get_attribute_value (fst (snd (update_attributes [Some example_attributes] example_node)))
     ''Node Colour'' = Inr (VStr ''None'') \<and>
   get_attribute_value (fst (snd (update_attributes [Some example_attributes] example_node)))
     ''Node Number'' = Inr (VInt 3) \<and>
   attributes_dict example_node = None"
  using sentinel_reads [of example_node "''Cue Number''"]
    sentinel_reads [of "fst (snd (update_attributes [Some example_attributes] example_node))"
      "''Cue Number''"
      "map_of [(''Node Number'', VInt 3), (''Node Name'', VStr ''Stage Left''),
           (''Cue Prefix'', VStr ''A'')]" "''Node Colour''"]
    sentinel_reads [of "fst (snd (update_attributes [Some example_attributes] example_node))"
      "''Cue Number''"
      "map_of [(''Node Number'', VInt 3), (''Node Name'', VStr ''Stage Left''),
           (''Cue Prefix'', VStr ''A'')]" "''Node Number''"]
  by (simp add: example_node_def Node_init_def example_attributes_def frame_loc_def)

text \<open>
  The claim as stated is false: on a node whose attributes have not been fetched, an
  attribute read raises AttributeError and does not return 'None'.
\<close>

theorem attribute_read_before_setup_counterexample:
  "get_attribute_value example_node ''Node Number'' = Inl AttributeError \<and>
   get_attribute_value example_node ''Node Number'' \<noteq> Inr (VStr ''None'')"
  by (simp add: get_attribute_value_def example_node_def Node_init_def)

section \<open>Properties of the display presenter\<close>

lemma pre_setup_cycle:
  "update_display_cycle False first s =
     Inr ([Sleep 2], first, s\<lparr>LCD := display_text (''MAC Addr: '' @ mac s) 1 (LCD s)\<rparr>)"
  by (simp add: update_display_cycle_def)

text \<open>
  Claim C6, amended. In every display cycle that runs before the setup tasks are done,
  the message 'MAC Addr: ' followed by the address is submitted to the display with the
  default priority 1. It is shown exactly when the display was set up and the latch is
  at most 1 (so it is eligible against the initial latch 0), and showing it sets the
  latch to 1; otherwise the display is unchanged.
\<close>

theorem pre_setup_display_priority:
  "update_display_cycle False first s =
     Inr ([Sleep 2], first, s\<lparr>LCD := display_text (''MAC Addr: '' @ mac s) 1 (LCD s)\<rparr>) \<and>
   (display (display_text (''MAC Addr: '' @ mac s) 1 (LCD s)) \<noteq> display (LCD s) \<longleftrightarrow>
      isSetup (LCD s) \<and> currentPriority (LCD s) \<le> 1) \<and>
   (isSetup (LCD s) \<and> currentPriority (LCD s) \<le> 1 \<longrightarrow>
      message (display_text (''MAC Addr: '' @ mac s) 1 (LCD s)) = take 32 (''MAC Addr: '' @ mac s) \<and>
      currentPriority (display_text (''MAC Addr: '' @ mac s) 1 (LCD s)) = 1) \<and>
   (\<not> (isSetup (LCD s) \<and> currentPriority (LCD s) \<le> 1) \<longrightarrow>
      display_text (''MAC Addr: '' @ mac s) 1 (LCD s) = LCD s)"
  using pre_setup_cycle [of first s]
    display_text_shown_iff [of "''MAC Addr: '' @ mac s" 1 "LCD s"]
    display_text_accept [of "LCD s" 1 "''MAC Addr: '' @ mac s"]
    display_text_reject [of "LCD s" 1 "''MAC Addr: '' @ mac s"]
  by simp

lemma example_node_LCD:
  "LCD example_node =
     \<lparr>message = [], currentPriority = 0, isSetup = True, display = [Begin 16 2]\<rparr>"
  by (simp add: example_node_def Node_init_def example_lcd)

theorem pre_setup_display_priority_witness:
  "isSetup (LCD example_node) \<and> currentPriority (LCD example_node) \<le> 1 \<and>
   message (display_text (''MAC Addr: '' @ mac example_node) 1 (LCD example_node)) =
     ''MAC Addr: b8:27:eb:12:34:56'' \<and>
   currentPriority (display_text (''MAC Addr: '' @ mac example_node) 1 (LCD example_node)) = 1 \<and>
   \<not> (isSetup (display_text ''An error has occurred: check log'' 2 (LCD example_node)) \<and>
      currentPriority (display_text ''An error has occurred: check log'' 2 (LCD example_node))
        \<le> 1) \<and>
   message (display_text (''MAC Addr: '' @ mac example_node) 1
     (display_text ''An error has occurred: check log'' 2 (LCD example_node))) =
     ''An error has occurred: check log''"
  using pre_setup_display_priority [of True example_node]
    pre_setup_display_priority [of True
      "example_node\<lparr>LCD := display_text ''An error has occurred: check log'' 2
         (LCD example_node)\<rparr>"]
  by (simp add: example_node_LCD example_mac display_text_def change_priority_def)

text \<open>
  The claim as stated is false: from the initial latch 0, one cycle before setup leaves
  the latch at 1, the priority the message was submitted with.
\<close>

theorem pre_setup_priority_counterexample:
  "currentPriority (LCD example_node) = 0 \<and>
   update_display_cycle False True example_node =
     Inr ([Sleep 2], True,
          example_node\<lparr>LCD :=
            \<lparr>message = ''MAC Addr: b8:27:eb:12:34:56'', currentPriority = 1, isSetup = True,
             display = [Begin 16 2, Home, Message (''MAC Addr: b8:27:'' @ [CHR 0x0A]),
                        Message ''eb:12:34:56'']\<rparr>\<rparr>)"
  by (simp add: update_display_cycle_def example_node_LCD example_mac display_text_def
      change_priority_def)


section \<open>Properties of the node state machine\<close>

lemma example_ready_eq:
  "example_ready =
     \<lparr>mac = ''b8:27:eb:12:34:56'', nodeSeries = [], cueSeries = [],
      changeState = False, initialState = True, justPressed = False,
      attributes_dict = Some (map_of [(''Node Number'', VInt 3), (''Node Name'', VStr ''Stage Left''),
          (''Cue Prefix'', VStr ''A'')]),
      stateFrame = Some example_frame, oldServerTime = VInt 101,
      futures = [True], uptodate_future = 0,
      errorStorage = \<lparr>filename = ''errors.json'', errors = [], dumped = None\<rparr>,
      LCD = \<lparr>message = [], currentPriority = 0, isSetup = True, display = [Begin 16 2]\<rparr>,
      GPIO = \<lparr>delay = 1, isConnected = False, screenTask = T_default_screen,
              screenArg = ''0000FF'', buttonTask = T_button_state, buttonArg = False,
              isPressed = False\<rparr>,
      sent = []\<rparr>"
  by (simp add: example_ready_def example_node_def Node_init_def example_lcd
      GPIOManagement_init_def button_state_def default_screen_def run_tasks_begin_def
      create_future_def example_attributes_def frame_loc_def uptodate_check_def
      uptodate_check_poll_def future_done_def set_result_def)

lemmas node_eval =
  try_bind_def series_getitem_def series_setitem_def series_empty_def frame_loc_def frame_at_def
  get_node_series_value_def get_attribute_value_def dict_getitem_def read_stateFrame_def
  cue_differs_def new_cue_def final_phase_def update_node_series_cycle_def publish_def
  get_cue_series_cycle_def get_button_input_poll_def get_button_input_release_def
  update_LEDs_cycle_def future_done_def uptodate_check_poll_def create_future_def set_result_def
  connected_def default_screen_def solid_screen_def blink_screen_def standby_def
  multiple_standbys_def go_def button_state_def blink_button_def pressed_def
  reset_button_pressed_def button_edge_def Let_def







lemma example_pressed_reached:
  "exec [CueFetch (Some [(VStr ''A'', example_cue)]), NodeStep, NodeStep, ButtonEdge,
         ButtonPoll, NodeStep, NodeStep, ButtonEdge,
         CueFetch (Some [(VStr ''A'', example_cue_hold)])] False example_ready =
     Inr (False, example_pressed)"
  by (simp add: example_pressed_def example_ready_eq example_cue_def example_cue_hold_def
      example_frame_def node_eval)



























section \<open>Properties of the LED arbiter\<close>

lemmas led_eval =
  run_LED_tasks_def priv_default_screen_def priv_solid_screen_def priv_blink_screen_def
  priv_button_state_def priv_blink_button_def priv_not_connected_def

text \<open>
  What the runner does after one LED cycle, by the rows of the decision: with the node
  connected the first five rows depend on the cue state, the node state and
  \<open>justPressed\<close> only, and the last row keeps the screen task of the cycle before;
  with the node not connected the runner turns the button light off and blinks red.
\<close>

lemma update_LEDs_connected:
  assumes "future_done s"
    "get_node_series_value s ''Cue State'' = Inr cueState"
    "get_node_series_value s ''Node State'' = Inr nodeState"
  shows "\<exists>s'. update_LEDs_cycle s = Inr s' \<and>
     run_LED_tasks (GPIO s') =
       (if nodeState \<noteq> VStr ''None'' then
          (if cueState = VStr ''Go'' \<and> justPressed s then [ButtonLED True]
           else [ButtonLED False], [ResetRGB])
        else if cueState = VStr ''Go'' then
          ([ButtonLED True, Sleep (delay (GPIO s)), ButtonLED False], [SetHex ''00FF00''])
        else if cueState = VStr ''Standby'' then ([ButtonLED False], [SetHex ''FFFF00''])
        else if cueState = VStr ''Multiple Standbys'' then
          ([ButtonLED False], [SetHex ''FFFF00'', Sleep (delay (GPIO s)), ResetRGB])
        else ([ButtonLED False], snd (run_LED_tasks (connected True (GPIO s)))))"
  using assms
  by (simp add: update_LEDs_cycle_def try_bind_def Let_def connected_def default_screen_def
      solid_screen_def blink_screen_def standby_def multiple_standbys_def go_def
      button_state_def blink_button_def led_eval split: screen_task.splits)

lemma update_LEDs_disconnected:
  assumes "\<not> future_done s"
  shows "\<exists>s'. update_LEDs_cycle s = Inr s' \<and>
     run_LED_tasks (GPIO s') =
       ([ButtonLED False], [SetHex ''FF0000'', Sleep (delay (GPIO s)), ResetRGB])"
  using assms
  by (simp add: update_LEDs_cycle_def Let_def connected_def led_eval)

text \<open>
  Claim C4 at a failing input. After a Standby cue with Node State 'None' the indicator
  task is solid yellow. When the cue then changes to a cue state other than Go, Standby
  and Multiple Standbys, again with Node State 'None', the LED cycle turns the button
  light off and leaves the indicator task as it was: the runner keeps showing solid
  yellow, not the default colour. The same cue state, node state, connection and
  \<open>justPressed\<close> reached without the Standby cue give the default colour, so the
  selection is not a function of these four inputs.
\<close>

theorem stale_indicator_after_standby:
  "LED_tasks_after
     [CueFetch (Some [(VStr ''A'', example_cue)]), NodeStep, NodeStep, LEDUpdate] example_ready =
     Some ([ButtonLED False], [SetHex ''FFFF00'']) \<and>
   LED_tasks_after
     [CueFetch (Some [(VStr ''A'', example_cue)]), NodeStep, NodeStep, LEDUpdate,
      CueFetch (Some [(VStr ''A'', example_cue_hold)]), NodeStep, NodeStep, LEDUpdate]
     example_ready =
     Some ([ButtonLED False], [SetHex ''FFFF00'']) \<and>
   LED_tasks_after
     [CueFetch (Some [(VStr ''A'', example_cue_hold)]), NodeStep, NodeStep, LEDUpdate]
     example_ready =
     Some ([ButtonLED False], [ResetRGB])"
  by (simp add: LED_tasks_after_def example_ready_eq example_frame_def example_cue_def
      example_cue_hold_def node_eval led_eval)

end
